theory Spec2Isabelle
  imports Complex_Main "HOL-Library.Sublist" "HOL-Library.AList"
begin

section \<open>Python string primitives\<close>

text \<open>
  Strings are lists of ASCII code points. The character classes are the ones Python's
  \<open>str.isspace\<close>, \<open>str.lower\<close>, \<open>str.upper\<close> and the regular-expression classes
  \<open>\w\<close>, \<open>\s\<close> have on code points below 128.
\<close>

definition is_space :: "char \<Rightarrow> bool" where
  "is_space c = (let n = (of_char c :: nat) in (9 \<le> n \<and> n \<le> 13) \<or> (28 \<le> n \<and> n \<le> 32))"

definition is_digit :: "char \<Rightarrow> bool" where
  "is_digit c = (let n = (of_char c :: nat) in 48 \<le> n \<and> n \<le> 57)"

definition is_upper :: "char \<Rightarrow> bool" where
  "is_upper c = (let n = (of_char c :: nat) in 65 \<le> n \<and> n \<le> 90)"

definition is_lower :: "char \<Rightarrow> bool" where
  "is_lower c = (let n = (of_char c :: nat) in 97 \<le> n \<and> n \<le> 122)"

definition is_alnum :: "char \<Rightarrow> bool" where
  "is_alnum c = (is_digit c \<or> is_upper c \<or> is_lower c)"

definition is_word :: "char \<Rightarrow> bool" where
  "is_word c = (is_alnum c \<or> c = CHR ''_'')"

definition lower_char :: "char \<Rightarrow> char" where
  "lower_char c = (if is_upper c then char_of (of_char c + (32::nat)) else c)"

definition upper_char :: "char \<Rightarrow> char" where
  "upper_char c = (if is_lower c then char_of (of_char c - (32::nat)) else c)"

definition lower :: "string \<Rightarrow> string" where
  "lower s = map lower_char s"

text \<open>\<open>str.capitalize\<close>: first character upper-cased, the rest lower-cased.\<close>

definition capitalize :: "string \<Rightarrow> string" where
  "capitalize s = (case s of [] \<Rightarrow> [] | c # cs \<Rightarrow> upper_char c # lower cs)"

text \<open>\<open>str.strip()\<close> with no argument.\<close>

definition strip :: "string \<Rightarrow> string" where
  "strip s = rev (dropWhile is_space (rev (dropWhile is_space s)))"

text \<open>
  The whitespace \<open>float(s)\<close> removes around a literal is the C set only: tab to carriage
  return, and the space.
\<close>

definition is_c_space :: "char \<Rightarrow> bool" where
  "is_c_space c = (let n = (of_char c :: nat) in (9 \<le> n \<and> n \<le> 13) \<or> n = 32)"

definition c_strip :: "string \<Rightarrow> string" where
  "c_strip s = rev (dropWhile is_c_space (rev (dropWhile is_c_space s)))"

text \<open>\<open>str.split()\<close> with no argument: the maximal runs of non-whitespace characters.\<close>

fun split_acc :: "string \<Rightarrow> string \<Rightarrow> string list" where
  "split_acc w [] = (if w = [] then [] else [w])"
| "split_acc w (c # cs) =
     (if is_space c then (if w = [] then split_acc [] cs else w # split_acc [] cs)
      else split_acc (w @ [c]) cs)"

definition split_ws :: "string \<Rightarrow> string list" where
  "split_ws s = split_acc [] s"

text \<open>\<open>sep.join(xs)\<close>.\<close>

fun join :: "string \<Rightarrow> string list \<Rightarrow> string" where
  "join sep [] = []"
| "join sep [x] = x"
| "join sep (x # y # ys) = x @ sep @ join sep (y # ys)"

text \<open>
  \<open>s.replace(old, new)\<close>: the non-overlapping occurrences of \<open>old\<close>, from the left. With an
  empty \<open>old\<close> Python puts \<open>new\<close> before every character and at the end.
\<close>

function replace_str :: "string \<Rightarrow> string \<Rightarrow> string \<Rightarrow> string" where
  "replace_str old new s =
     (if old = [] then new @ concat (map (\<lambda>c. c # new) s)
      else if s = [] then []
      else if prefix old s then new @ replace_str old new (drop (length old) s)
      else hd s # replace_str old new (tl s))"
  by pat_completeness auto
termination
  by (relation "measure (\<lambda>(old, new, s). length s)") auto

declare replace_str.simps [simp del]

section \<open>Name matching (utils/name\_matcher.py)\<close>

text \<open>
  The name arguments are optional strings: \<open>None\<close> stands for a value on which \<open>pd.isna\<close>
  is true.
\<close>

definition replacements :: "(string \<times> string) list" where
  "replacements =
     [('' inc '', '' ''), ('' incorporated '', '' ''), ('' corp '', '' ''),
      ('' corporation '', '' ''), ('' llc '', '' ''), ('' ltd '', '' ''),
      ('' limited '', '' '')]"

definition normalize_name :: "string option \<Rightarrow> string" where
  "normalize_name name =
     (case name of
        None \<Rightarrow> []
      | Some s \<Rightarrow>
          (let n1 = strip (lower s);
               n2 = join '' '' (split_ws n1);
               n3 = filter (\<lambda>c. is_word c \<or> is_space c \<or> c = CHR ''-'') n2;
               n4 = fold (\<lambda>(old, new) n. replace_str old new n) replacements n3
           in strip n4))"

text \<open>
  \<open>SequenceMatcher(None, a, b).ratio()\<close> belongs to Python's difflib; it is the parameter
  \<open>ratio\<close>.
\<close>

definition are_similar_names ::
  "(string \<Rightarrow> string \<Rightarrow> real) \<Rightarrow> string option \<Rightarrow> string option \<Rightarrow> real \<Rightarrow> bool" where
  "are_similar_names ratio name1 name2 threshold =
     (let n1 = normalize_name name1; n2 = normalize_name name2 in
      if n1 = [] \<or> n2 = [] then False
      else if n1 = n2 then True
      else if sublist n1 n2 \<or> sublist n2 n1 then True
      else
        (let words1 = set (split_ws n1);
             words2 = set (split_ws n2);
             common_words = words1 \<inter> words2
         in if card common_words \<ge> min (card words1) (card words2) then True
            else ratio n1 n2 \<ge> threshold))"

section \<open>Cells, columns and frames\<close>

text \<open>
  A cell of a pandas column: \<open>NoneV\<close> is Python's \<open>None\<close> and \<open>NaN\<close> the float nan, the two
  values on which \<open>pd.isna\<close> is true; \<open>PInf\<close> and \<open>NInf\<close> are the infinite floats; \<open>IntV\<close>
  is a Python \<open>int\<close>; \<open>Num\<close> is a finite float, taken as the exact value it denotes
  (rounding to the nearest binary float is not modelled, the overflow beyond the float range
  is); \<open>Str\<close> is a Python \<open>str\<close>.
  A frame is the list of its columns, each a name with the list of its cells.
\<close>

datatype cell = NoneV | NaN | PInf | NInf | IntV int | Num rat | Str string

type_synonym dataframe = "(string \<times> cell list) list"

datatype warning =
    DateWarning string
  | AmountConversionWarning string
  | InvalidAmountsWarning nat

datatype error =
    KeyError "string list"
  | MissingRequiredFields "string list"
  | OverflowError
  | StrAccessorError
  | SortError nat
  | NormalizationError error

definition pd_isna :: "cell \<Rightarrow> bool" where
  "pd_isna c = (c = NaN \<or> c = NoneV)"

definition is_float :: "cell \<Rightarrow> bool" where
  "is_float c = (case c of NaN \<Rightarrow> True | PInf \<Rightarrow> True | NInf \<Rightarrow> True | Num x \<Rightarrow> True | _ \<Rightarrow> False)"

definition has_column :: "dataframe \<Rightarrow> string \<Rightarrow> bool" where
  "has_column df c = (map_of df c \<noteq> None)"

text \<open>
  \<open>df[c] = df[c].apply(f)\<close> under the guard \<open>if c in df.columns\<close>: the column keeps its
  place and every cell is replaced by its image.
\<close>

definition apply_column :: "string \<Rightarrow> (cell \<Rightarrow> cell) \<Rightarrow> dataframe \<Rightarrow> dataframe" where
  "apply_column c f df =
     (case map_of df c of None \<Rightarrow> df | Some col \<Rightarrow> AList.update c (map f col) df)"

text \<open>The decimal digits of \<open>str(i)\<close> for a Python \<open>int\<close>.\<close>

definition digit_char :: "nat \<Rightarrow> char" where
  "digit_char n = char_of (48 + n mod 10)"

function nat_digits :: "nat \<Rightarrow> string" where
  "nat_digits n = (if n < 10 then [digit_char n] else nat_digits (n div 10) @ [digit_char n])"
  by pat_completeness auto
termination
  by (relation "measure id") auto

declare nat_digits.simps [simp del]

definition int_str :: "int \<Rightarrow> string" where
  "int_str i = (if i < 0 then ''-'' @ nat_digits (nat (- i)) else nat_digits (nat i))"

text \<open>
  \<open>str(x)\<close> of a cell. The digits Python prints for a finite float are the parameter
  \<open>fs\<close>.
\<close>

definition py_str :: "(rat \<Rightarrow> string) \<Rightarrow> cell \<Rightarrow> string" where
  "py_str fs c =
     (case c of Str s \<Rightarrow> s | NoneV \<Rightarrow> ''None'' | NaN \<Rightarrow> ''nan'' | PInf \<Rightarrow> ''inf''
      | NInf \<Rightarrow> ''-inf'' | IntV i \<Rightarrow> int_str i | Num x \<Rightarrow> fs x)"

section \<open>Python's float\<close>

text \<open>
  A number whose magnitude reaches \<open>2^1024 - 2^970\<close> rounds beyond the largest double.
  \<open>float\<close> of a string then gives an infinity; \<open>float\<close> of an \<open>int\<close> raises OverflowError.
\<close>

definition float_bound :: rat where
  "float_bound = 2 ^ 1024 - 2 ^ 970"

definition to_float :: "rat \<Rightarrow> cell" where
  "to_float x = (if float_bound \<le> x then PInf else if x \<le> - float_bound then NInf else Num x)"

definition float_of_int :: "int \<Rightarrow> error + cell" where
  "float_of_int i =
     (if float_bound \<le> \<bar>of_int i\<bar> then Inl OverflowError else Inr (Num (of_int i)))"

definition digit_val :: "char \<Rightarrow> nat" where
  "digit_val c = of_char c - 48"

definition digits_value :: "string \<Rightarrow> nat" where
  "digits_value s = foldl (\<lambda>a c. 10 * a + digit_val c) 0 s"

text \<open>A digit part of the float grammar: digits, with single underscores between digits.\<close>

fun digitpart :: "string \<Rightarrow> bool" where
  "digitpart [] = False"
| "digitpart [c] = is_digit c"
| "digitpart (c # d # cs) =
     (is_digit c \<and> (if d = CHR ''_'' then digitpart cs else digitpart (d # cs)))"

definition part_value :: "string \<Rightarrow> nat" where
  "part_value s = digits_value (filter (\<lambda>c. c \<noteq> CHR ''_'') s)"

definition part_digits :: "string \<Rightarrow> nat" where
  "part_digits s = length (filter (\<lambda>c. c \<noteq> CHR ''_'') s)"

text \<open>The mantissa: \<open>digitpart [. [digitpart]]\<close> or \<open>. digitpart\<close>.\<close>

definition parse_mantissa :: "string \<Rightarrow> rat option" where
  "parse_mantissa m =
     (let ip = takeWhile (\<lambda>c. c \<noteq> CHR ''.'') m;
          rest = dropWhile (\<lambda>c. c \<noteq> CHR ''.'') m
      in case rest of
           [] \<Rightarrow> if digitpart ip then Some (of_nat (part_value ip)) else None
         | dot # fp \<Rightarrow>
             if (ip = [] \<or> digitpart ip) \<and> (fp = [] \<or> digitpart fp) \<and> \<not> (ip = [] \<and> fp = [])
             then Some (of_nat (part_value ip) + of_nat (part_value fp) / 10 ^ part_digits fp)
             else None)"

text \<open>The exponent after \<open>e\<close> or \<open>E\<close>: an optional sign and a digit part.\<close>

definition parse_exponent :: "string \<Rightarrow> int option" where
  "parse_exponent ex =
     (case ex of
        [] \<Rightarrow> None
      | c # cs \<Rightarrow>
          if c = CHR ''-'' then (if digitpart cs then Some (- int (part_value cs)) else None)
          else if c = CHR ''+'' then (if digitpart cs then Some (int (part_value cs)) else None)
          else if digitpart ex then Some (int (part_value ex)) else None)"

definition scale10 :: "rat \<Rightarrow> int \<Rightarrow> rat" where
  "scale10 x e = (if 0 \<le> e then x * 10 ^ nat e else x / 10 ^ nat (- e))"

definition is_exp_char :: "char \<Rightarrow> bool" where
  "is_exp_char c = (c = CHR ''e'' \<or> c = CHR ''E'')"

definition parse_decimal :: "string \<Rightarrow> rat option" where
  "parse_decimal u =
     (let m = takeWhile (\<lambda>c. \<not> is_exp_char c) u;
          rest = dropWhile (\<lambda>c. \<not> is_exp_char c) u
      in case rest of
           [] \<Rightarrow> parse_mantissa m
         | e # ex \<Rightarrow>
             (case parse_mantissa m of
                None \<Rightarrow> None
              | Some x \<Rightarrow>
                  (case parse_exponent ex of None \<Rightarrow> None | Some k \<Rightarrow> Some (scale10 x k))))"

text \<open>An unsigned float literal: \<open>inf\<close>, \<open>infinity\<close>, \<open>nan\<close> in any case, or a decimal.\<close>

definition parse_unsigned :: "bool \<Rightarrow> string \<Rightarrow> cell option" where
  "parse_unsigned neg u =
     (if lower u = ''inf'' \<or> lower u = ''infinity'' then Some (if neg then NInf else PInf)
      else if lower u = ''nan'' then Some NaN
      else (case parse_decimal u of
              None \<Rightarrow> None
            | Some x \<Rightarrow> Some (to_float (if neg then - x else x))))"

text \<open>\<open>float(s)\<close> of a string: \<open>None\<close> is the ValueError.\<close>

definition py_float :: "string \<Rightarrow> cell option" where
  "py_float s =
     (case c_strip s of
        [] \<Rightarrow> None
      | c # cs \<Rightarrow>
          if c = CHR ''-'' then parse_unsigned True cs
          else if c = CHR ''+'' then parse_unsigned False cs
          else parse_unsigned False (c # cs))"
section \<open>Normalization (normalizer/normalizer.py)\<close>

subsection \<open>Dates\<close>

text \<open>
  A calendar date is year, month, day. The parameter \<open>to_datetime\<close> stands for pandas'
  \<open>pd.to_datetime(column, format='mixed', errors='coerce')\<close> followed by the \<open>.dt\<close> accessor,
  on a whole column: \<open>Some\<close> of the parsed dates, with \<open>None\<close> for NaT, or \<open>None\<close> when
  pandas raises. \<open>strftime\<close> is \<open>.dt.strftime('%Y-%m-%d')\<close> on a date of pandas' range
  (four-digit years); NaT becomes the missing value. When pandas raises, the stage prints a
  warning and sets the whole column to \<open>None\<close>.
\<close>

type_synonym date = "nat \<times> nat \<times> nat"

definition strftime :: "date \<Rightarrow> string" where
  "strftime d =
     (case d of (y, m, dd) \<Rightarrow>
        [digit_char (y div 1000), digit_char (y div 100), digit_char (y div 10), digit_char y]
        @ ''-'' @ [digit_char (m div 10), digit_char m]
        @ ''-'' @ [digit_char (dd div 10), digit_char dd])"

definition iso_cell :: "date option \<Rightarrow> cell" where
  "iso_cell d = (case d of None \<Rightarrow> NaN | Some x \<Rightarrow> Str (strftime x))"

definition date_columns :: "string list" where
  "date_columns = [''enrollment_date'', ''disenrollment_date'', ''effective_date'', ''processed_date'']"

definition normalize_date_column ::
  "(cell list \<Rightarrow> date option list option) \<Rightarrow> string \<Rightarrow> dataframe \<times> warning list
     \<Rightarrow> dataframe \<times> warning list" where
  "normalize_date_column to_datetime col st =
     (case st of (df, ws) \<Rightarrow>
        (case map_of df col of
           None \<Rightarrow> (df, ws)
         | Some cells \<Rightarrow>
             (case to_datetime cells of
                Some ds \<Rightarrow> (AList.update col (map iso_cell ds) df, ws)
              | None \<Rightarrow>
                  (AList.update col (replicate (length cells) NoneV) df,
                   ws @ [DateWarning col]))))"

definition normalize_dates ::
  "(cell list \<Rightarrow> date option list option) \<Rightarrow> dataframe \<Rightarrow> dataframe \<times> warning list" where
  "normalize_dates to_datetime df = fold (normalize_date_column to_datetime) date_columns (df, [])"

subsection \<open>Amounts\<close>

text \<open>
  \<open>clean_amount\<close> catches ValueError and TypeError only: the OverflowError of \<open>float\<close> on
  an \<open>int\<close> beyond the float range leaves it.
\<close>

definition clean_amount :: "cell \<Rightarrow> error + cell \<times> warning list" where
  "clean_amount val =
     (if pd_isna val then Inr (Num 0, [])
      else
        (case val of
           IntV i \<Rightarrow> (case float_of_int i of Inl e \<Rightarrow> Inl e | Inr f \<Rightarrow> Inr (f, []))
         | Str s \<Rightarrow>
             (let v1 = strip (replace_str '','' [] (replace_str ''$'' [] s));
                  v2 = (if prefix ''('' v1 \<and> suffix '')'' v1 then ''-'' @ butlast (tl v1) else v1);
                  v3 = (if prefix ''-$'' v2 then ''-'' @ drop 2 v2 else v2)
              in case py_float v3 of
                   Some f \<Rightarrow> Inr (f, [])
                 | None \<Rightarrow> Inr (Num 0, [AmountConversionWarning v3]))
         | _ \<Rightarrow> Inr (val, [])))"

text \<open>
  \<open>.apply(clean_amount)\<close>: the cells in order; the first exception ends the stage, with the
  warnings printed until then.
\<close>

fun apply_clean_amount :: "cell list \<Rightarrow> (error + cell list) \<times> warning list" where
  "apply_clean_amount [] = (Inr [], [])"
| "apply_clean_amount (c # cs) =
     (case clean_amount c of
        Inl e \<Rightarrow> (Inl e, [])
      | Inr (v, w) \<Rightarrow>
          (case apply_clean_amount cs of
             (Inl e, ws) \<Rightarrow> (Inl e, w @ ws)
           | (Inr vs, ws) \<Rightarrow> (Inr (v # vs), w @ ws)))"

definition normalize_amounts :: "dataframe \<Rightarrow> (error + dataframe) \<times> warning list" where
  "normalize_amounts df =
     (case map_of df ''commission_amount'' of
        None \<Rightarrow> (Inl (KeyError [''commission_amount'']), [])
      | Some col \<Rightarrow>
          (case apply_clean_amount col of
             (Inl e, ws) \<Rightarrow> (Inl e, ws)
           | (Inr vs, ws) \<Rightarrow> (Inr (AList.update ''commission_amount'' vs df), ws)))"

subsection \<open>Names\<close>

definition clean_name :: "(rat \<Rightarrow> string) \<Rightarrow> cell \<Rightarrow> string" where
  "clean_name fs name =
     (if pd_isna name \<or> strip (py_str fs name) = [] then ''Unknown Agent''
      else join '' '' (map capitalize (split_ws (strip (py_str fs name)))))"

definition normalize_names :: "(rat \<Rightarrow> string) \<Rightarrow> dataframe \<Rightarrow> dataframe" where
  "normalize_names fs df =
     apply_column ''agency_name'' (\<lambda>c. Str (clean_name fs c))
       (apply_column ''agent_name'' (\<lambda>c. Str (clean_name fs c)) df)"

subsection \<open>Transaction types\<close>

definition transaction_mapping :: "(string \<times> string) list" where
  "transaction_mapping =
     [(''new'', ''New''), (''renewal'', ''Renewal''), (''renew'', ''Renewal''),
      (''cancel'', ''Cancellation''), (''cancellation'', ''Cancellation''),
      (''terminate'', ''Termination''), (''termination'', ''Termination''),
      (''adjustment'', ''Adjustment''), (''adj'', ''Adjustment''), (''bonus'', ''Bonus''),
      (''commission'', ''Commission''), (''reversal'', ''Reversal''),
      (''correction'', ''Correction'')]"

text \<open>
  The \<open>.str\<close> accessor of pandas raises AttributeError on a column whose values are not
  strings: here, a column that has a cell, no string cell, and a cell other than \<open>None\<close>.
\<close>

definition is_str :: "cell \<Rightarrow> bool" where
  "is_str c = (case c of Str s \<Rightarrow> True | _ \<Rightarrow> False)"

definition str_accessor_ok :: "cell list \<Rightarrow> bool" where
  "str_accessor_ok col = (col = [] \<or> list_ex is_str col \<or> list_all (\<lambda>c. c = NoneV) col)"

text \<open>\<open>.str.lower()\<close>: a cell that is not a string becomes the missing value.\<close>

definition str_lower :: "cell list \<Rightarrow> error + cell list" where
  "str_lower col =
     (if str_accessor_ok col
      then Inr (map (\<lambda>c. case c of Str s \<Rightarrow> Str (lower s) | _ \<Rightarrow> NaN) col)
      else Inl StrAccessorError)"

text \<open>\<open>.map(d)\<close> with a dictionary: the whole cell is the key; no key, the missing value.\<close>

definition map_dict :: "(string \<times> string) list \<Rightarrow> cell list \<Rightarrow> cell list" where
  "map_dict d col =
     map (\<lambda>c. case c of
                 Str s \<Rightarrow> (case map_of d s of Some t \<Rightarrow> Str t | None \<Rightarrow> NaN)
               | _ \<Rightarrow> NaN) col"

definition fillna :: "cell \<Rightarrow> cell list \<Rightarrow> cell list" where
  "fillna v col = map (\<lambda>c. if pd_isna c then v else c) col"

definition standardize_transaction_types :: "dataframe \<Rightarrow> error + dataframe" where
  "standardize_transaction_types df =
     (case map_of df ''transaction_type'' of
        None \<Rightarrow> Inr df
      | Some col \<Rightarrow>
          (case str_lower col of
             Inl e \<Rightarrow> Inl e
           | Inr low \<Rightarrow>
               Inr (AList.update ''transaction_type''
                      (fillna (Str ''Other'') (map_dict transaction_mapping low)) df)))"

subsection \<open>Member identifiers\<close>

definition clean_member_id :: "(rat \<Rightarrow> string) \<Rightarrow> cell \<Rightarrow> cell" where
  "clean_member_id fs c = Str (filter is_alnum (strip (py_str fs c)))"

definition clean_member_ids :: "(rat \<Rightarrow> string) \<Rightarrow> dataframe \<Rightarrow> dataframe" where
  "clean_member_ids fs df = apply_column ''member_id'' (clean_member_id fs) df"

subsection \<open>Required fields\<close>

definition required_fields :: "string list" where
  "required_fields = [''carrier_name'', ''commission_period'', ''agent_name'', ''commission_amount'']"

definition validate_required_fields :: "dataframe \<Rightarrow> error + dataframe \<times> warning list" where
  "validate_required_fields df =
     (let missing_fields = filter (\<lambda>f. \<not> has_column df f) required_fields in
      if missing_fields \<noteq> [] then Inl (MissingRequiredFields missing_fields)
      else
        (case map_of df ''commission_amount'' of
           None \<Rightarrow> Inl (KeyError [''commission_amount''])
         | Some col \<Rightarrow>
             (let invalid_amounts = length (filter pd_isna col) in
              if invalid_amounts > 0
              then Inr (AList.update ''commission_amount''
                          (map (\<lambda>c. if pd_isna c then Num 0 else c) col) df,
                        [InvalidAmountsWarning invalid_amounts])
              else Inr (df, []))))"

subsection \<open>The normalizer object\<close>

record normalizer =
  data :: dataframe
  normalized_data :: "dataframe option"

text \<open>
  The constructor copies the frame and prints a sample of the two columns \<open>agent_name\<close> and
  \<open>commission_amount\<close>, which raises KeyError when one of them is absent.
\<close>

definition init :: "dataframe \<Rightarrow> error + normalizer" where
  "init df =
     (let absent = filter (\<lambda>f. \<not> has_column df f) [''agent_name'', ''commission_amount''] in
      if absent \<noteq> [] then Inl (KeyError absent)
      else Inr \<lparr> data = df, normalized_data = None \<rparr>)"

text \<open>
  \<open>normalize\<close> returns its result (the exception, wrapped, or the frame), the object after
  the call and the warnings printed. A stage that raises leaves \<open>self.data\<close> as the stages
  before it made it.
\<close>

definition normalize ::
  "(cell list \<Rightarrow> date option list option) \<Rightarrow> (rat \<Rightarrow> string) \<Rightarrow> normalizer
     \<Rightarrow> (error + dataframe) \<times> normalizer \<times> warning list" where
  "normalize to_datetime fs self =
     (case normalize_dates to_datetime (data self) of
        (d1, w1) \<Rightarrow>
          (case normalize_amounts d1 of
             (Inl e, w2) \<Rightarrow> (Inl (NormalizationError e), self\<lparr>data := d1\<rparr>, w1 @ w2)
           | (Inr d2, w2) \<Rightarrow>
               (let d3 = normalize_names fs d2 in
                case standardize_transaction_types d3 of
                  Inl e \<Rightarrow> (Inl (NormalizationError e), self\<lparr>data := d3\<rparr>, w1 @ w2)
                | Inr d4 \<Rightarrow>
                    (let d5 = clean_member_ids fs d4 in
                     case validate_required_fields d5 of
                       Inl e \<Rightarrow> (Inl (NormalizationError e), self\<lparr>data := d5\<rparr>, w1 @ w2)
                     | Inr (d6, w6) \<Rightarrow>
                         (Inr d6, self\<lparr>data := d6, normalized_data := Some d6\<rparr>,
                          w1 @ w2 @ w6)))))"
section \<open>The specification's wording, for comparison\<close>

text \<open>
  The amount cleaner as the specification words it: the same rewriting steps, and when the
  parse fails one more parse of the string with every character other than digits, signs
  and the dot removed, before the result 0.0.
\<close>

definition clean_amount_spec :: "cell \<Rightarrow> cell" where
  "clean_amount_spec val =
     (if pd_isna val then Num 0
      else
        (case val of
           IntV i \<Rightarrow> Num (of_int i)
         | Str s \<Rightarrow>
             (let v1 = strip (replace_str '','' [] (replace_str ''$'' [] s));
                  v2 = (if prefix ''('' v1 \<and> suffix '')'' v1 then ''-'' @ butlast (tl v1) else v1);
                  v3 = (if prefix ''-$'' v2 then ''-'' @ drop 2 v2 else v2)
              in case py_float v3 of
                   Some f \<Rightarrow> f
                 | None \<Rightarrow>
                     (case py_float (filter (\<lambda>c. is_digit c \<or> c = CHR ''-'' \<or> c = CHR ''+''
                                                     \<or> c = CHR ''.'') v3) of
                        Some f \<Rightarrow> f
                      | None \<Rightarrow> Num 0))
         | _ \<Rightarrow> val))"

text \<open>
  The transaction-type mapper as the specification words it: a case-insensitive substring
  lookup, the first entry of the synonym table whose key occurs in the lower-cased label.
\<close>

definition standardize_label_spec :: "string \<Rightarrow> string" where
  "standardize_label_spec s =
     (case find (\<lambda>(k, t). sublist k (lower s)) transaction_mapping of
        Some (k, t) \<Rightarrow> t
      | None \<Rightarrow> ''Other'')"

definition vocabulary :: "string list" where
  "vocabulary =
     [''New'', ''Renewal'', ''Cancellation'', ''Termination'', ''Adjustment'', ''Bonus'',
      ''Commission'', ''Reversal'', ''Correction'', ''Other'']"

text \<open>
  The layered similarity rule as the specification words it, with the third layer on the
  shorter name. \<open>measure_of\<close> is the measure by which a name is shorter: its number of characters,
  or its number of tokens.
\<close>

definition are_similar_spec ::
  "(string \<Rightarrow> nat) \<Rightarrow> (string \<Rightarrow> string \<Rightarrow> real) \<Rightarrow> string option \<Rightarrow> string option
     \<Rightarrow> real \<Rightarrow> bool" where
  "are_similar_spec measure_of ratio name1 name2 threshold =
     (let n1 = normalize_name name1; n2 = normalize_name name2 in
      n1 \<noteq> [] \<and> n2 \<noteq> [] \<and>
      (n1 = n2 \<or> sublist n1 n2 \<or> sublist n2 n1
       \<or> (if measure_of n1 \<le> measure_of n2 then set (split_ws n1) \<subseteq> set (split_ws n2)
           else set (split_ws n2) \<subseteq> set (split_ws n1))
       \<or> threshold \<le> ratio n1 n2))"

section \<open>Written amounts\<close>

text \<open>
  The amount strings the cleaner is meant for: groups of digits separated by thousands
  commas, an optional fraction after a dot, an optional dollar sign before or inside the
  sign, and a negative written in parentheses or with a leading minus.
  \<open>amount_value\<close> is the number such a string denotes.
\<close>

datatype sign_form = Plain | Parens | Minus

datatype dollar_place = NoDollar | DollarFirst | DollarInside

definition amount_text :: "sign_form \<Rightarrow> dollar_place \<Rightarrow> string list \<Rightarrow> string \<Rightarrow> string" where
  "amount_text sf dp groups fp =
     (if dp = DollarFirst then ''$'' else [])
     @ (case sf of Plain \<Rightarrow> [] | Parens \<Rightarrow> ''('' | Minus \<Rightarrow> ''-'')
     @ (if dp = DollarInside then ''$'' else [])
     @ join '','' groups
     @ (if fp = [] then [] else ''.'' @ fp)
     @ (if sf = Parens then '')'' else [])"

definition amount_value :: "sign_form \<Rightarrow> string list \<Rightarrow> string \<Rightarrow> rat" where
  "amount_value sf groups fp =
     (if sf = Plain then 1 else - 1)
     * (of_nat (digits_value (concat groups)) + of_nat (digits_value fp) / 10 ^ length fp)"

definition digit_groups :: "string list \<Rightarrow> bool" where
  "digit_groups groups = (groups \<noteq> [] \<and> list_all (\<lambda>g. g \<noteq> [] \<and> list_all is_digit g) groups)"

text \<open>The string the cleaner hands to \<open>float\<close>.\<close>

definition amount_literal :: "string \<Rightarrow> string" where
  "amount_literal s =
     (let v1 = strip (filter (\<lambda>c. c \<noteq> CHR ''$'' \<and> c \<noteq> CHR '','') s)
      in if prefix ''('' v1 \<and> suffix '')'' v1 then ''-'' @ butlast (tl v1) else v1)"

section \<open>Notions used to state and prove the properties\<close>

text \<open>
  The image of one cell of a column that passes the \<open>.str\<close> accessor through
  \<open>.str.lower().map(transaction_mapping).fillna('Other')\<close>.
\<close>

definition label_cell :: "cell \<Rightarrow> cell" where
  "label_cell c =
     (let low = (case c of Str s \<Rightarrow> Str (lower s) | _ \<Rightarrow> NaN);
          mapped = (case low of
                      Str s \<Rightarrow> (case map_of transaction_mapping s of Some t \<Rightarrow> Str t | None \<Rightarrow> NaN)
                    | _ \<Rightarrow> NaN)
      in if pd_isna mapped then Str ''Other'' else mapped)"

section \<open>Verified properties\<close>

subsection \<open>Name similarity\<close>

lemma card_common_iff:
  assumes "finite A" "finite B"
  shows "(min (card A) (card B) \<le> card (A \<inter> B)) =
         (if card A \<le> card B then A \<subseteq> B else B \<subseteq> A)"
proof (cases "card A \<le> card B")
  case True
  have "(card A \<le> card (A \<inter> B)) = (A \<subseteq> B)"
  proof
    assume h: "card A \<le> card (A \<inter> B)"
    have "A \<inter> B = A" using assms h by (intro card_seteq) auto
    then show "A \<subseteq> B" by blast
  next
    assume "A \<subseteq> B"
    then have "A \<inter> B = A" by blast
    then show "card A \<le> card (A \<inter> B)" by simp
  qed
  with True show ?thesis by (simp add: min_def)
next
  case False
  have "(card B \<le> card (A \<inter> B)) = (B \<subseteq> A)"
  proof
    assume h: "card B \<le> card (A \<inter> B)"
    have "A \<inter> B = B" using assms h by (intro card_seteq) auto
    then show "B \<subseteq> A" by blast
  next
    assume "B \<subseteq> A"
    then have "A \<inter> B = B" by blast
    then show "card B \<le> card (A \<inter> B)" by simp
  qed
  with False show ?thesis by (simp add: min_def)
qed

text \<open>
  C7, as the code has it. For all names \<open>a\<close>, \<open>b\<close>, every threshold \<open>t\<close> and every
  sequence-similarity function, \<open>are_similar_names\<close> is false when either normalized form is
  empty, and otherwise true exactly when one of the four layers holds: the normalized forms
  are equal; one is a substring of the other; the smaller of the two token sets, the one
  with fewer distinct tokens, is contained in the other; the similarity ratio of the
  normalized forms reaches the threshold. In particular ("Acme Corp", "acme", 0.85) is
  similar and ("", "anything", 0.85) is not.
\<close>

theorem are_similar_names_layers:
  "are_similar_names ratio a b t =
     (normalize_name a \<noteq> [] \<and> normalize_name b \<noteq> [] \<and>
      (normalize_name a = normalize_name b
       \<or> sublist (normalize_name a) (normalize_name b)
       \<or> sublist (normalize_name b) (normalize_name a)
       \<or> (if card (set (split_ws (normalize_name a))) \<le> card (set (split_ws (normalize_name b)))
           then set (split_ws (normalize_name a)) \<subseteq> set (split_ws (normalize_name b))
           else set (split_ws (normalize_name b)) \<subseteq> set (split_ws (normalize_name a)))
       \<or> t \<le> ratio (normalize_name a) (normalize_name b)))
   \<and> are_similar_names ratio (Some ''Acme Corp'') (Some ''acme'') (85 / 100)
   \<and> \<not> are_similar_names ratio (Some []) (Some ''anything'') (85 / 100)"
proof (intro conjI)
  show "are_similar_names ratio a b t =
     (normalize_name a \<noteq> [] \<and> normalize_name b \<noteq> [] \<and>
      (normalize_name a = normalize_name b
       \<or> sublist (normalize_name a) (normalize_name b)
       \<or> sublist (normalize_name b) (normalize_name a)
       \<or> (if card (set (split_ws (normalize_name a))) \<le> card (set (split_ws (normalize_name b)))
           then set (split_ws (normalize_name a)) \<subseteq> set (split_ws (normalize_name b))
           else set (split_ws (normalize_name b)) \<subseteq> set (split_ws (normalize_name a)))
       \<or> t \<le> ratio (normalize_name a) (normalize_name b)))"
    unfolding are_similar_names_def Let_def
    using card_common_iff [of "set (split_ws (normalize_name a))" "set (split_ws (normalize_name b))"]
    by auto
next
  have n1: "normalize_name (Some ''Acme Corp'') = ''acme corp''" by code_simp
  have n2: "normalize_name (Some ''acme'') = ''acme''" by code_simp
  show "are_similar_names ratio (Some ''Acme Corp'') (Some ''acme'') (85 / 100)"
    unfolding are_similar_names_def Let_def n1 n2 by simp
next
  have n1: "normalize_name (Some []) = []" by code_simp
  show "\<not> are_similar_names ratio (Some []) (Some ''anything'') (85 / 100)"
    unfolding are_similar_names_def Let_def n1 by simp
qed

text \<open>
  C7 as stated fails. For "ab ab ab" and "ab c" the second name is the shorter one, in
  characters and in tokens, and its tokens are not all tokens of the first; neither is a
  substring of the other and the similarity ratio, 0.5, is below 0.85: the layers of the
  claim give false. The code compares the sizes of the token sets, \<open>{ab}\<close> and
  \<open>{ab, c}\<close>, finds the smaller one contained in the other and returns true.
\<close>

theorem are_similar_names_shorter_counterexample:
  "are_similar_names (\<lambda>x y. 1 / 2) (Some ''ab ab ab'') (Some ''ab c'') (85 / 100)
   \<and> \<not> are_similar_spec length (\<lambda>x y. 1 / 2) (Some ''ab ab ab'') (Some ''ab c'') (85 / 100)
   \<and> \<not> are_similar_spec (\<lambda>s. length (split_ws s)) (\<lambda>x y. 1 / 2)
         (Some ''ab ab ab'') (Some ''ab c'') (85 / 100)"
proof -
  have n1: "normalize_name (Some ''ab ab ab'') = ''ab ab ab''" by code_simp
  have n2: "normalize_name (Some ''ab c'') = ''ab c''" by code_simp
  have w1: "split_ws ''ab ab ab'' = [''ab'', ''ab'', ''ab'']" by code_simp
  have w2: "split_ws ''ab c'' = [''ab'', ''c'']" by code_simp
  have s1: "\<not> sublist ''ab ab ab'' ''ab c''" by code_simp
  have s2: "\<not> sublist ''ab c'' ''ab ab ab''" by code_simp
  show ?thesis
    unfolding are_similar_names_def are_similar_spec_def Let_def n1 n2 w1 w2
    using s1 s2 by simp
qed

text \<open>
  C8. The replacement table removes a legal-entity word only where it stands between two
  spaces. The name is stripped before the table is applied, so a word at the end of the
  name, where a suffix stands, is never followed by a space and stays: "Acme Corp." has the
  key "acme corp", which is not the key "acme" of "Acme".
\<close>

theorem normalize_name_trailing_suffix_kept:
  "normalize_name (Some ''Acme Corp.'') = ''acme corp''
   \<and> normalize_name (Some ''Acme'') = ''acme''
   \<and> normalize_name (Some ''Acme Corp.'') \<noteq> normalize_name (Some ''Acme'')"
  by code_simp

subsection \<open>Name and identifier stages\<close>












subsection \<open>Transaction types and the amount algorithm\<close>

lemma lower_char_idem: "lower_char (lower_char c) = lower_char c"
proof (cases "is_upper c")
  case True
  have "\<not> is_upper (char_of (of_char c + (32::nat)))"
    using True by (simp add: is_upper_def Let_def)
  then show ?thesis by (simp add: lower_char_def)
next
  case False
  then show ?thesis by (simp add: lower_char_def)
qed

lemma lower_idem: "lower (lower s) = lower s"
  by (simp add: lower_def lower_char_idem)

lemma transaction_keys_distinct: "distinct (map fst transaction_mapping)"
  by (simp add: transaction_mapping_def)

lemma transaction_targets: "(k, t) \<in> set transaction_mapping \<Longrightarrow> t \<in> set vocabulary"
  by (auto simp add: transaction_mapping_def vocabulary_def)

lemma label_cell_of_str:
  "label_cell (Str s) =
     Str (case map_of transaction_mapping (lower s) of Some t \<Rightarrow> t | None \<Rightarrow> ''Other'')"
  by (simp add: label_cell_def pd_isna_def split: option.splits)

lemma label_cell_not_str: "\<not> is_str c \<Longrightarrow> label_cell c = Str ''Other''"
  by (cases c) (simp_all add: label_cell_def is_str_def pd_isna_def)

lemma label_cell_in_vocabulary: "\<exists>t. label_cell c = Str t \<and> t \<in> set vocabulary"
proof (cases "is_str c")
  case False
  then show ?thesis by (simp add: label_cell_not_str vocabulary_def)
next
  case True
  then obtain s where c: "c = Str s" by (cases c) (simp_all add: is_str_def)
  show ?thesis
  proof (cases "map_of transaction_mapping (lower s)")
    case None
    then show ?thesis by (simp add: c label_cell_of_str vocabulary_def)
  next
    case (Some t)
    then have "(lower s, t) \<in> set transaction_mapping" by (rule map_of_SomeD)
    then have "t \<in> set vocabulary" by (rule transaction_targets)
    then show ?thesis using Some by (simp add: c label_cell_of_str)
  qed
qed

lemma series_ops_cells:
  "fillna (Str ''Other'')
     (map_dict transaction_mapping (map (\<lambda>c. case c of Str s \<Rightarrow> Str (lower s) | _ \<Rightarrow> NaN) col))
     = map label_cell col"
  by (simp add: fillna_def map_dict_def label_cell_def comp_def)

lemma standardize_column:
  assumes "map_of df ''transaction_type'' = Some col"
  shows "standardize_transaction_types df =
           (if str_accessor_ok col
            then Inr (AList.update ''transaction_type'' (map label_cell col) df)
            else Inl StrAccessorError)"
  using assms by (simp add: standardize_transaction_types_def str_lower_def series_ops_cells)

lemma strings_accessor_ok: "list_all is_str col \<Longrightarrow> str_accessor_ok col"
  by (cases col) (simp_all add: str_accessor_ok_def)

text \<open>
  C6, as the code has it. On a column of free-text labels, all of them strings, the
  transaction-type stage does not raise and replaces every label by a member of the closed
  vocabulary. The lookup is case-insensitive and takes the whole lower-cased label as the
  dictionary key: a label whose lower-cased form is a key maps to that key's target, and
  every other label maps to "Other". No substring of the label is looked up and the label
  is not trimmed.
\<close>

theorem standardize_transaction_types_exact_lookup:
  assumes "map_of df ''transaction_type'' = Some col" and "list_all is_str col"
  shows "\<exists>out. standardize_transaction_types df = Inr (AList.update ''transaction_type'' out df)
           \<and> length out = length col
           \<and> (\<forall>i<length col. \<exists>s t. col ! i = Str s \<and> out ! i = Str t \<and> t \<in> set vocabulary
                 \<and> (\<forall>k v. (k, v) \<in> set transaction_mapping \<and> lower s = k \<longrightarrow> t = v)
                 \<and> (lower s \<notin> fst ` set transaction_mapping \<longrightarrow> t = ''Other''))"
proof -
  have r: "standardize_transaction_types df
             = Inr (AList.update ''transaction_type'' (map label_cell col) df)"
    using standardize_column [OF assms(1)] strings_accessor_ok [OF assms(2)] by simp
  have p: "\<exists>s t. col ! i = Str s \<and> map label_cell col ! i = Str t \<and> t \<in> set vocabulary
             \<and> (\<forall>k v. (k, v) \<in> set transaction_mapping \<and> lower s = k \<longrightarrow> t = v)
             \<and> (lower s \<notin> fst ` set transaction_mapping \<longrightarrow> t = ''Other'')"
    if i: "i < length col" for i
  proof -
    have "is_str (col ! i)" using i assms(2) by (simp add: list_all_length)
    then obtain s where s: "col ! i = Str s" by (cases "col ! i") (simp_all add: is_str_def)
    obtain t where t: "label_cell (Str s) = Str t" "t \<in> set vocabulary"
      using label_cell_in_vocabulary by blast
    have k: "t = v" if "(k, v) \<in> set transaction_mapping \<and> lower s = k" for k v
    proof -
      from that have "map_of transaction_mapping (lower s) = Some v"
        using transaction_keys_distinct by (auto intro: map_of_is_SomeI)
      then show ?thesis using t(1) by (simp add: label_cell_of_str)
    qed
    have o: "t = ''Other''" if "lower s \<notin> fst ` set transaction_mapping"
    proof -
      from that have "map_of transaction_mapping (lower s) = None"
        by (simp add: map_of_eq_None_iff)
      then show ?thesis using t(1) by (simp add: label_cell_of_str)
    qed
    have m: "map label_cell col ! i = Str t" using i s t(1) by simp
    show ?thesis using s m t(2) k o by blast
  qed
  show ?thesis
    by (rule exI [of _ "map label_cell col"]) (use r p in simp)
qed

theorem standardize_transaction_types_exact_lookup_witness:
  "\<exists>out. standardize_transaction_types [(''transaction_type'', [Str ''RENEW'', Str ''New Business''])]
            = Inr [(''transaction_type'', out)]
         \<and> length out = 2 \<and> out ! 0 = Str ''Renewal'' \<and> out ! 1 = Str ''Other''"
proof -
  let ?col = "[Str ''RENEW'', Str ''New Business'']"
  let ?df = "[(''transaction_type'', ?col)]"
  have a: "map_of ?df ''transaction_type'' = Some ?col" by simp
  have b: "list_all is_str ?col" by (simp add: is_str_def)
  obtain out where r: "standardize_transaction_types ?df = Inr (AList.update ''transaction_type'' out ?df)"
    and l: "length out = length ?col"
    and p: "\<forall>i<length ?col. \<exists>s t. ?col ! i = Str s \<and> out ! i = Str t \<and> t \<in> set vocabulary
                 \<and> (\<forall>k v. (k, v) \<in> set transaction_mapping \<and> lower s = k \<longrightarrow> t = v)
                 \<and> (lower s \<notin> fst ` set transaction_mapping \<longrightarrow> t = ''Other'')"
    using standardize_transaction_types_exact_lookup [OF a b] by blast
  have k: "(''renew'', ''Renewal'') \<in> set transaction_mapping \<and> lower ''RENEW'' = ''renew''"
    by code_simp
  have n: "lower ''New Business'' \<notin> fst ` set transaction_mapping" by code_simp
  have "out ! 0 = Str ''Renewal''" using p [rule_format, of 0] k by auto
  moreover have "out ! 1 = Str ''Other''" using p [rule_format, of 1] n by auto
  ultimately show ?thesis using r l by simp
qed

text \<open>
  C6 as stated fails: "New Business" contains the synonym "new", a substring lookup maps it
  to "New", and the stage maps it to "Other".
\<close>

theorem standardize_transaction_types_substring_counterexample:
  "sublist ''new'' (lower ''New Business'')
   \<and> standardize_label_spec ''New Business'' = ''New''
   \<and> standardize_transaction_types [(''transaction_type'', [Str ''New Business''])]
       = Inr [(''transaction_type'', [Str ''Other''])]"
  by code_simp

lemma replace_char_filter: "replace_str [c] [] s = filter (\<lambda>x. x \<noteq> c) s"
proof (induction s)
  case Nil
  show ?case by (subst replace_str.simps) simp
next
  case (Cons x xs)
  show ?case by (subst replace_str.simps) (auto simp add: Cons)
qed

lemma no_dollar_prefix:
  assumes "CHR ''$'' \<notin> set v"
  shows "\<not> prefix ''-$'' v"
proof
  assume "prefix ''-$'' v"
  then obtain r where "v = ''-$'' @ r" by (auto simp add: prefix_def)
  then have "CHR ''$'' \<in> set v" by simp
  with assms show False by contradiction
qed

lemma set_strip: "set (strip s) \<subseteq> set s"
proof -
  have "set (strip s) \<subseteq> set (dropWhile is_space s)"
    unfolding strip_def using set_dropWhileD by fastforce
  also have "\<dots> \<subseteq> set s" using set_dropWhileD by fastforce
  finally show ?thesis .
qed

lemma clean_amount_string:
  "clean_amount (Str s) =
     (let v1 = strip (filter (\<lambda>c. c \<noteq> CHR ''$'' \<and> c \<noteq> CHR '','') s);
          v2 = (if prefix ''('' v1 \<and> suffix '')'' v1 then ''-'' @ butlast (tl v1) else v1)
      in case py_float v2 of
           Some f \<Rightarrow> Inr (f, [])
         | None \<Rightarrow> Inr (Num 0, [AmountConversionWarning v2]))"
proof -
  define v1 where "v1 = strip (filter (\<lambda>c. c \<noteq> CHR ''$'' \<and> c \<noteq> CHR '','') s)"
  define v2 where "v2 = (if prefix ''('' v1 \<and> suffix '')'' v1 then ''-'' @ butlast (tl v1) else v1)"
  have r: "strip (replace_str '','' [] (replace_str ''$'' [] s)) = v1"
    by (simp add: replace_char_filter v1_def conj_commute)
  have "CHR ''$'' \<notin> set v1" using set_strip [of "filter (\<lambda>c. c \<noteq> CHR ''$'' \<and> c \<noteq> CHR '','') s"]
    by (auto simp add: v1_def)
  moreover have "set (butlast (tl v1)) \<subseteq> set v1"
  proof
    fix x assume "x \<in> set (butlast (tl v1))"
    then have "x \<in> set (tl v1)" by (rule in_set_butlastD)
    then show "x \<in> set v1" by (cases v1) simp_all
  qed
  ultimately have "CHR ''$'' \<notin> set v2" by (auto simp add: v2_def)
  then have np: "\<not> prefix ''-$'' v2" by (rule no_dollar_prefix)
  have v3: "(if prefix ''-$'' v2 then ''-'' @ drop 2 v2 else v2) = v2" using np by simp
  have "clean_amount (Str s) =
          (case py_float v2 of Some f \<Rightarrow> Inr (f, [])
           | None \<Rightarrow> Inr (Num 0, [AmountConversionWarning v2]))"
    unfolding clean_amount_def Let_def pd_isna_def
    by (simp only: cell.simps simp_thms if_False r v2_def [symmetric] v3)
  then show ?thesis
    by (simp only: Let_def v1_def [symmetric] v2_def [symmetric])
qed

text \<open>
  C5, as the code has it. On a string the amount cleaner removes every \<open>$\<close> and every comma,
  strips whitespace, rewrites a value enclosed in parentheses to a leading minus and parses
  the result as a float. The rewriting of a leading \<open>-$\<close> never changes anything, since no
  \<open>$\<close> is left by then. When the parse fails the result is 0.0 with a warning: there is no
  second parse of a further stripped string.
\<close>

theorem clean_amount_no_retry:
  "clean_amount (Str s) =
     (let v1 = strip (filter (\<lambda>c. c \<noteq> CHR ''$'' \<and> c \<noteq> CHR '','') s);
          v2 = (if prefix ''('' v1 \<and> suffix '')'' v1 then ''-'' @ butlast (tl v1) else v1)
      in case py_float v2 of
           Some f \<Rightarrow> Inr (f, [])
         | None \<Rightarrow> Inr (Num 0, [AmountConversionWarning v2]))"
  by (rule clean_amount_string)

text \<open>
  C5 as stated fails: on "100 USD" the parse fails, the retry of the specification would
  parse "100", and the code returns 0.0.
\<close>

theorem clean_amount_retry_counterexample:
  "clean_amount (Str ''100 USD'') = Inr (Num 0, [AmountConversionWarning ''100 USD''])
   \<and> clean_amount_spec (Str ''100 USD'') = Num 100"
  by code_simp

subsection \<open>The amount cleaner on written amounts\<close>

lemma digit_not_special:
  assumes "is_digit c"
  shows "c \<noteq> CHR ''$''" "c \<noteq> CHR '',''" "c \<noteq> CHR ''.''" "c \<noteq> CHR ''_''"
    "c \<noteq> CHR ''-''" "c \<noteq> CHR ''+''" "c \<noteq> CHR ''(''" "c \<noteq> CHR '')''"
    "\<not> is_space c" "\<not> is_exp_char c" "lower_char c = c" "c \<noteq> CHR ''i''" "c \<noteq> CHR ''n''"
  using assms
  by (auto simp add: is_digit_def is_space_def is_exp_char_def lower_char_def is_upper_def Let_def)

lemma strip_id:
  assumes "s \<noteq> []" "\<not> is_space (hd s)" "\<not> is_space (last s)"
  shows "strip s = s"
proof -
  have a: "dropWhile is_space s = s" using assms(1,2) by (cases s) simp_all
  obtain ys y where s: "s = ys @ [y]" using assms(1) by (cases s rule: rev_cases) auto
  have b: "dropWhile is_space (rev s) = rev s" using assms(3) by (simp add: s)
  show ?thesis by (simp add: strip_def a b)
qed

lemma c_space_is_space: "is_c_space c \<Longrightarrow> is_space c"
  by (auto simp add: is_c_space_def is_space_def Let_def)

lemma c_strip_id:
  assumes "s \<noteq> []" "\<not> is_space (hd s)" "\<not> is_space (last s)"
  shows "c_strip s = s"
proof -
  have n1: "\<not> is_c_space (hd s)" and n2: "\<not> is_c_space (last s)"
    using assms(2,3) c_space_is_space by blast+
  have a: "dropWhile is_c_space s = s" using assms(1) n1 by (cases s) simp_all
  obtain ys y where s: "s = ys @ [y]" using assms(1) by (cases s rule: rev_cases) auto
  have b: "dropWhile is_c_space (rev s) = rev s" using n2 by (simp add: s)
  show ?thesis by (simp add: c_strip_def a b)
qed

lemma digitpart_digits: "s \<noteq> [] \<Longrightarrow> list_all is_digit s \<Longrightarrow> digitpart s"
  by (induction s rule: digitpart.induct) (auto simp add: digit_not_special)

lemma filter_underscore_digits:
  "list_all is_digit s \<Longrightarrow> filter (\<lambda>c. c \<noteq> CHR ''_'') s = s"
  by (induction s) (auto simp add: digit_not_special)

lemma part_value_digits: "list_all is_digit s \<Longrightarrow> part_value s = digits_value s"
  by (simp add: part_value_def filter_underscore_digits)

lemma part_digits_digits: "list_all is_digit s \<Longrightarrow> part_digits s = length s"
  by (simp add: part_digits_def filter_underscore_digits)

lemma parse_mantissa_digits:
  assumes "D \<noteq> []" "list_all is_digit D" "list_all is_digit fp"
  shows "parse_mantissa (D @ (if fp = [] then [] else ''.'' @ fp))
           = Some (of_nat (digits_value D) + of_nat (digits_value fp) / 10 ^ length fp)"
proof -
  have nd: "\<And>x. x \<in> set D \<Longrightarrow> x \<noteq> CHR ''.''"
    using assms(2) by (auto simp add: list_all_iff digit_not_special)
  show ?thesis
  proof (cases "fp = []")
    case True
    have t: "takeWhile (\<lambda>c. c \<noteq> CHR ''.'') D = D" using nd by (simp add: takeWhile_eq_all_conv)
    have d: "dropWhile (\<lambda>c. c \<noteq> CHR ''.'') D = []" using nd by simp
    show ?thesis using True assms
      by (simp add: parse_mantissa_def t d digitpart_digits part_value_digits digits_value_def)
  next
    case False
    have t: "takeWhile (\<lambda>c. c \<noteq> CHR ''.'') (D @ CHR ''.'' # fp) = D"
      using nd by (simp add: takeWhile_append2)
    have d: "dropWhile (\<lambda>c. c \<noteq> CHR ''.'') (D @ CHR ''.'' # fp) = CHR ''.'' # fp"
      using nd by (simp add: dropWhile_append2)
    show ?thesis using False assms
      by (simp add: parse_mantissa_def t d digitpart_digits part_value_digits part_digits_digits)
  qed
qed

lemma parse_unsigned_digits:
  assumes "D \<noteq> []" "list_all is_digit D" "list_all is_digit fp"
  shows "parse_unsigned neg (D @ (if fp = [] then [] else ''.'' @ fp))
           = Some (to_float ((if neg then - 1 else 1)
                        * (of_nat (digits_value D) + of_nat (digits_value fp) / 10 ^ length fp)))"
proof -
  let ?u = "D @ (if fp = [] then [] else ''.'' @ fp)"
  obtain d ds where D: "D = d # ds" using assms(1) by (cases D) auto
  then have dd: "is_digit d" using assms(2) by simp
  have lu: "lower ?u = d # lower (ds @ (if fp = [] then [] else ''.'' @ fp))"
    using dd by (simp add: D lower_def digit_not_special)
  have n1: "lower ?u \<noteq> ''inf''" "lower ?u \<noteq> ''infinity''" "lower ?u \<noteq> ''nan''"
    unfolding lu using dd digit_not_special(12,13) by auto
  have ne: "\<not> is_exp_char x" if "x \<in> set ?u" for x
  proof -
    from that have "is_digit x \<or> x = CHR ''.''"
      using assms(2,3) by (auto simp add: list_all_iff split: if_splits)
    then show ?thesis using digit_not_special(10) by (auto simp add: is_exp_char_def)
  qed
  have t: "takeWhile (\<lambda>c. \<not> is_exp_char c) ?u = ?u" using ne by (simp add: takeWhile_eq_all_conv)
  have dr: "dropWhile (\<lambda>c. \<not> is_exp_char c) ?u = []" using ne by (simp only: dropWhile_eq_Nil_conv) blast
  have pd: "parse_decimal ?u = parse_mantissa ?u"
    by (simp only: parse_decimal_def Let_def t dr list.case)
  show ?thesis
    unfolding parse_unsigned_def pd parse_mantissa_digits [OF assms]
    using n1 by simp
qed

lemma py_float_decimal:
  assumes "D \<noteq> []" "list_all is_digit D" "list_all is_digit fp"
  shows "py_float ((if neg then ''-'' else []) @ D @ (if fp = [] then [] else ''.'' @ fp))
           = Some (to_float ((if neg then - 1 else 1)
                        * (of_nat (digits_value D) + of_nat (digits_value fp) / 10 ^ length fp)))"
proof -
  let ?u = "D @ (if fp = [] then [] else ''.'' @ fp)"
  let ?s = "(if neg then ''-'' else []) @ ?u"
  obtain d ds where D: "D = d # ds" using assms(1) by (cases D) auto
  then have dd: "is_digit d" using assms(2) by simp
  have lastu: "is_digit (last ?u)"
    using assms by (auto simp add: list_all_iff)
  have "?s \<noteq> []" using assms(1) by simp
  moreover have "\<not> is_space (hd ?s)"
  proof (cases neg)
    case True
    then show ?thesis by (simp add: is_space_def)
  next
    case False
    then show ?thesis using dd by (simp add: D digit_not_special)
  qed
  moreover have "last ?s = last ?u" using assms(1) by simp
  then have "\<not> is_space (last ?s)" using lastu by (simp add: digit_not_special)
  ultimately have st: "c_strip ?s = ?s" by (rule c_strip_id)
  have pf: "py_float ?s =
              (case ?s of [] \<Rightarrow> None
               | c # cs \<Rightarrow>
                   if c = CHR ''-'' then parse_unsigned True cs
                   else if c = CHR ''+'' then parse_unsigned False cs
                   else parse_unsigned False (c # cs))"
    by (simp only: py_float_def st)
  show ?thesis
  proof (cases neg)
    case True
    then have "py_float ?s = parse_unsigned True ?u" unfolding pf by simp
    then show ?thesis using True parse_unsigned_digits [OF assms, of True] by simp
  next
    case False
    then have "py_float ?s = parse_unsigned False ?u"
      unfolding pf using dd by (simp add: D digit_not_special)
    then show ?thesis using False parse_unsigned_digits [OF assms, of False] by simp
  qed
qed


lemma filter_join_groups:
  "list_all (\<lambda>g. g \<noteq> [] \<and> list_all is_digit g) groups \<Longrightarrow>
     filter (\<lambda>c. c \<noteq> CHR ''$'' \<and> c \<noteq> CHR '','') (join '','' groups) = concat groups"
proof (induction "'',''" groups rule: join.induct)
  case 1
  show ?case by simp
next
  case (2 x)
  then have "\<And>c. c \<in> set x \<Longrightarrow> c \<noteq> CHR ''$'' \<and> c \<noteq> CHR '',''"
    by (auto simp add: list_all_iff digit_not_special)
  then show ?case by simp
next
  case (3 x y ys)
  then have "\<And>c. c \<in> set x \<Longrightarrow> c \<noteq> CHR ''$'' \<and> c \<noteq> CHR '',''"
    by (auto simp add: list_all_iff digit_not_special)
  then have "filter (\<lambda>c. c \<noteq> CHR ''$'' \<and> c \<noteq> CHR '','') x = x" by simp
  then show ?case using 3 by simp
qed

lemma concat_digit_groups:
  assumes "digit_groups groups"
  shows "concat groups \<noteq> []" "list_all is_digit (concat groups)"
  using assms by (auto simp add: digit_groups_def list_all_iff)

lemma amount_literal_text:
  assumes "digit_groups groups" "list_all is_digit fp"
  shows "amount_literal (amount_text sf dp groups fp)
           = (if sf = Plain then [] else ''-'') @ concat groups
             @ (if fp = [] then [] else ''.'' @ fp)"
proof -
  let ?u = "concat groups @ (if fp = [] then [] else ''.'' @ fp)"
  let ?keep = "\<lambda>c. c \<noteq> CHR ''$'' \<and> c \<noteq> CHR '',''"
  have g: "list_all (\<lambda>g. g \<noteq> [] \<and> list_all is_digit g) groups"
    using assms(1) by (simp add: digit_groups_def)
  have fj: "filter ?keep (join '','' groups) = concat groups"
    using g by (rule filter_join_groups)
  have "\<And>c. c \<in> set fp \<Longrightarrow> ?keep c"
    using assms(2) by (auto simp add: list_all_iff digit_not_special)
  then have ff: "filter ?keep fp = fp" by simp
  have fl: "filter ?keep (amount_text sf dp groups fp)
              = (case sf of Plain \<Rightarrow> [] | Parens \<Rightarrow> ''('' | Minus \<Rightarrow> ''-'') @ ?u
                @ (if sf = Parens then '')'' else [])"
    by (cases sf; cases dp) (simp_all add: amount_text_def fj ff)
  obtain d ds where D: "concat groups = d # ds"
    using concat_digit_groups(1) [OF assms(1)] by (cases "concat groups") auto
  have dd: "is_digit d" using concat_digit_groups(2) [OF assms(1)] by (simp add: D)
  have une: "?u \<noteq> []" by (simp add: D)
  have hdu: "hd ?u = d" by (simp add: D)
  have lastu: "is_digit (last ?u)"
  proof (cases "fp = []")
    case True
    have "last (concat groups) \<in> set (concat groups)"
      using concat_digit_groups(1) [OF assms(1)] by (rule last_in_set)
    then have "is_digit (last (concat groups))"
      using concat_digit_groups(2) [OF assms(1)] unfolding list_all_iff by blast
    then show ?thesis using True by simp
  next
    case False
    then have "last fp \<in> set fp" by (rule last_in_set)
    then have "is_digit (last fp)" using assms(2) by (simp add: list_all_iff)
    then show ?thesis using False by simp
  qed
  have nsl: "\<not> is_space (last ?u)" using lastu by (rule digit_not_special)
  have lit: "amount_literal (amount_text sf dp groups fp) =
               (if prefix ''('' (strip v) \<and> suffix '')'' (strip v)
                then ''-'' @ butlast (tl (strip v)) else strip v)"
    if "filter ?keep (amount_text sf dp groups fp) = v" for v
    by (simp only: amount_literal_def Let_def that)
  show ?thesis
  proof (cases sf)
    case Plain
    have f: "filter ?keep (amount_text sf dp groups fp) = ?u" using fl Plain by simp
    have st: "strip ?u = ?u" using une nsl dd by (intro strip_id) (simp_all add: hdu digit_not_special)
    have np: "\<not> prefix ''('' ?u" using digit_not_special(7) [OF dd] by (auto simp add: D)
    show ?thesis unfolding lit [OF f] st using np Plain by simp
  next
    case Minus
    have f: "filter ?keep (amount_text sf dp groups fp) = ''-'' @ ?u" using fl Minus by simp
    have "last (''-'' @ ?u) = last ?u" by (simp only: last_append une if_False)
    then have st: "strip (''-'' @ ?u) = ''-'' @ ?u"
      using nsl by (intro strip_id) (simp_all add: is_space_def)
    show ?thesis unfolding lit [OF f] st using Minus by simp
  next
    case Parens
    have f: "filter ?keep (amount_text sf dp groups fp) = ''('' @ ?u @ '')''" using fl Parens by simp
    have st: "strip (''('' @ ?u @ '')'') = ''('' @ ?u @ '')''"
      by (intro strip_id) (simp_all add: is_space_def)
    have bl: "butlast (tl (''('' @ ?u @ '')'')) = ?u" by (simp add: butlast_append)
    have pre: "prefix ''('' (''('' @ ?u @ '')'')" by simp
    have suf: "suffix '')'' (''('' @ ?u @ '')'')" by (simp add: suffix_def)
    show ?thesis unfolding lit [OF f] st using Parens bl pre suf by simp
  qed
qed

lemma clean_amount_literal:
  "clean_amount (Str s) =
     (case py_float (amount_literal s) of
        Some f \<Rightarrow> Inr (f, [])
      | None \<Rightarrow> Inr (Num 0, [AmountConversionWarning (amount_literal s)]))"
  using clean_amount_string [of s] by (simp only: amount_literal_def Let_def)

lemma to_float_is_float: "is_float (to_float x) \<and> to_float x \<noteq> NaN"
  by (simp add: to_float_def is_float_def)

lemma parse_unsigned_is_float: "parse_unsigned neg u = Some f \<Longrightarrow> is_float f"
  using to_float_is_float
  by (auto simp add: parse_unsigned_def is_float_def split: if_splits option.splits)

lemma py_float_is_float: "py_float s = Some f \<Longrightarrow> is_float f"
  by (auto simp add: py_float_def split: list.splits if_splits dest: parse_unsigned_is_float)

lemma clean_amount_written:
  assumes "digit_groups groups" "list_all is_digit fp"
  shows "clean_amount (Str (amount_text sf dp groups fp))
           = Inr (to_float (amount_value sf groups fp), [])"
proof (cases "sf = Plain")
  case True
  have "py_float (amount_literal (amount_text sf dp groups fp))
          = Some (to_float (1 * (of_nat (digits_value (concat groups))
                          + of_nat (digits_value fp) / 10 ^ length fp)))"
    using py_float_decimal [OF concat_digit_groups [OF assms(1)] assms(2), of False] True
    by (simp add: amount_literal_text [OF assms] del: One_nat_def)
  then show ?thesis using True by (simp add: clean_amount_literal amount_value_def)
next
  case False
  have "py_float (amount_literal (amount_text sf dp groups fp))
          = Some (to_float (- 1 * (of_nat (digits_value (concat groups))
                          + of_nat (digits_value fp) / 10 ^ length fp)))"
    using py_float_decimal [OF concat_digit_groups [OF assms(1)] assms(2), of True] False
    by (simp add: amount_literal_text [OF assms])
  then show ?thesis using False by (simp add: clean_amount_literal amount_value_def)
qed

lemma clean_amount_returns_float:
  assumes "\<forall>i. v = IntV i \<longrightarrow> \<bar>of_int i\<bar> < float_bound"
  shows "\<exists>f w. clean_amount v = Inr (f, w) \<and> is_float f"
proof (cases v)
  case (Str x)
  show ?thesis
    unfolding Str clean_amount_literal
    by (cases "py_float (amount_literal x)") (auto simp add: is_float_def dest: py_float_is_float)
next
  case (IntV i)
  then have "\<bar>of_int i\<bar> < float_bound" using assms by simp
  then show ?thesis
    by (simp add: IntV clean_amount_def pd_isna_def float_of_int_def is_float_def)
qed (simp_all add: clean_amount_def pd_isna_def is_float_def)

text \<open>
  C4, as the code has it. On every cell other than an integer beyond the float range the
  amount cleaner does not raise and returns a float: a float passes through, an integer is
  converted, the missing values become 0.0, and a string whose rewritten form is not a
  float literal gives 0.0. Every written amount, that is digit groups separated by commas
  with an optional fraction, an optional dollar sign and a negative in parentheses or with
  a leading minus, with no whitespace inside, gives the float of the number it denotes (an
  infinity beyond the float range). In particular "$(1,234.50)" gives -1234.50.
\<close>

theorem clean_amount_float:
  "((\<forall>i. v = IntV i \<longrightarrow> \<bar>of_int i\<bar> < float_bound) \<longrightarrow>
      (\<exists>f w. clean_amount v = Inr (f, w) \<and> is_float f))
   \<and> (is_float v \<longrightarrow> clean_amount v = Inr (if v = NaN then Num 0 else v, []))
   \<and> clean_amount NoneV = Inr (Num 0, [])
   \<and> (\<bar>of_int i\<bar> < float_bound \<longrightarrow> clean_amount (IntV i) = Inr (Num (of_int i), []))
   \<and> (py_float (amount_literal s) = None \<longrightarrow>
        clean_amount (Str s) = Inr (Num 0, [AmountConversionWarning (amount_literal s)]))
   \<and> (digit_groups groups \<and> list_all is_digit fp \<longrightarrow>
        clean_amount (Str (amount_text sf dp groups fp))
          = Inr (to_float (amount_value sf groups fp), []))
   \<and> clean_amount (Str ''$(1,234.50)'') = Inr (Num (- (123450 / 100)), [])"
proof (intro conjI impI)
  assume "\<forall>i. v = IntV i \<longrightarrow> \<bar>of_int i\<bar> < float_bound"
  then show "\<exists>f w. clean_amount v = Inr (f, w) \<and> is_float f"
    by (rule clean_amount_returns_float)
next
  assume "is_float v"
  then show "clean_amount v = Inr (if v = NaN then Num 0 else v, [])"
    by (cases v) (simp_all add: clean_amount_def pd_isna_def is_float_def)
next
  show "clean_amount NoneV = Inr (Num 0, [])" by (simp add: clean_amount_def pd_isna_def)
next
  assume "\<bar>of_int i\<bar> < float_bound"
  then show "clean_amount (IntV i) = Inr (Num (of_int i), [])"
    by (simp add: clean_amount_def pd_isna_def float_of_int_def)
next
  assume "py_float (amount_literal s) = None"
  then show "clean_amount (Str s) = Inr (Num 0, [AmountConversionWarning (amount_literal s)])"
    by (simp add: clean_amount_literal)
next
  assume "digit_groups groups \<and> list_all is_digit fp"
  then show "clean_amount (Str (amount_text sf dp groups fp))
               = Inr (to_float (amount_value sf groups fp), [])"
    using clean_amount_written by blast
next
  show "clean_amount (Str ''$(1,234.50)'') = Inr (Num (- (123450 / 100)), [])" by code_simp
qed

theorem clean_amount_float_witness:
  "clean_amount (Num 5) = Inr (Num 5, [])
   \<and> clean_amount (IntV 7) = Inr (Num 7, [])
   \<and> clean_amount (Str ''12 dollars'') = Inr (Num 0, [AmountConversionWarning ''12 dollars''])
   \<and> clean_amount (Str (amount_text Parens DollarFirst [''1'', ''234''] ''50''))
       = Inr (Num (- (2469 / 2)), [])"
proof -
  have a: "is_float (Num 5)" by (simp add: is_float_def)
  have b: "\<bar>of_int 7\<bar> < float_bound" by (simp add: float_bound_def)
  have c: "py_float (amount_literal ''12 dollars'') = None" by code_simp
  have c': "amount_literal ''12 dollars'' = ''12 dollars''" by code_simp
  have d: "digit_groups [''1'', ''234''] \<and> list_all is_digit ''50''" by code_simp
  have e: "to_float (amount_value Parens [''1'', ''234''] ''50'') = Num (- (2469 / 2))"
    by code_simp
  show ?thesis
    using clean_amount_float [of "Num 5" 7 "''12 dollars''" "[''1'', ''234'']" "''50''" Parens DollarFirst]
      a b c c' d e
    by simp
qed

text \<open>
  C4 as stated fails. A negative in parentheses with blanks inside, and a dollar amount with
  a blank after the sign, are not float literals after the rewriting and give 0.0 instead of
  -100 and -1234.50. An integer beyond the float range makes \<open>float\<close> raise OverflowError,
  which the cleaner does not catch.
\<close>

theorem clean_amount_counterexample:
  "clean_amount (Str ''( 100 )'') = Inr (Num 0, [AmountConversionWarning ''- 100 ''])
   \<and> clean_amount (Str ''-$ 1,234.50'') = Inr (Num 0, [AmountConversionWarning ''- 1234.50''])
   \<and> clean_amount (IntV (10 ^ 400)) = Inl OverflowError"
  by code_simp


end
